theory Spec2Isabelle
  imports Main "HOL-Library.Sublist"
begin

section \<open>Table metadata\<close>

text \<open>
  Modelled from the spec: the interfaces \<open>DbTableMeta\<close> and \<open>ColumnMeta\<close> are declared
  outside \<open>db_utils.go\<close>. The generators only call \<open>TableName()\<close> and \<open>Columns()\<close> on a
  table and \<open>Name()\<close>, \<open>ColumnType()\<close>, \<open>IsPrimaryKey()\<close> and \<open>IsAutoIncrement()\<close> on a
  column, so a view is the record of what these accessors return. The column
  sequence is ordered.
\<close>

record ColumnMeta =
  Name :: string
  ColumnType :: string
  IsPrimaryKey :: bool
  IsAutoIncrement :: bool

record DbTableMeta =
  TableName :: string
  Columns :: "ColumnMeta list"

section \<open>Results and formatting\<close>

text \<open>
  A Go \<open>error\<close> built by \<open>fmt.Errorf\<close> is a value that carries its message. Every
  generator returns the pair \<open>(string, error)\<close>; a nil error is \<open>None\<close>.
\<close>

datatype error = Errorf string

fun message :: "error \<Rightarrow> string" where
  "message (Errorf m) = m"

type_synonym result = "string \<times> error option"

text \<open>
  The verb \<open>%d\<close> of \<open>fmt.Sprintf\<close> on a Go \<open>int\<close>: decimal digits, with a minus sign
  for a negative number. The counters of this file start at 1 and grow by one per
  column, so they stay far below \<open>2^63\<close> and are unbounded integers here.
\<close>

definition digit :: "nat \<Rightarrow> char" where
  "digit d = ''0123456789'' ! d"

fun digits :: "nat \<Rightarrow> string" where
  "digits n = (if n < 10 then [digit n] else digits (n div 10) @ [digit (n mod 10)])"

declare digits.simps [simp del]

definition Sprintf_d :: "int \<Rightarrow> string" where
  "Sprintf_d i = (if i < 0 then ''-'' @ digits (nat (- i)) else digits (nat i))"

section \<open>Key inspection helpers\<close>

fun PrimaryKeyCount_loop :: "ColumnMeta list \<Rightarrow> int \<Rightarrow> int" where
  "PrimaryKeyCount_loop [] primaryKeys = primaryKeys"
| "PrimaryKeyCount_loop (col # cols) primaryKeys =
     (if IsPrimaryKey col then PrimaryKeyCount_loop cols (primaryKeys + 1)
      else PrimaryKeyCount_loop cols primaryKeys)"

definition PrimaryKeyCount :: "DbTableMeta \<Rightarrow> int" where
  "PrimaryKeyCount dbTable = PrimaryKeyCount_loop (Columns dbTable) 0"

fun PrimaryKeyNames_loop :: "ColumnMeta list \<Rightarrow> string list \<Rightarrow> string list" where
  "PrimaryKeyNames_loop [] primaryKeyNames = primaryKeyNames"
| "PrimaryKeyNames_loop (col # cols) primaryKeyNames =
     (if IsPrimaryKey col then PrimaryKeyNames_loop cols (primaryKeyNames @ [Name col])
      else PrimaryKeyNames_loop cols primaryKeyNames)"

definition PrimaryKeyNames :: "DbTableMeta \<Rightarrow> string list" where
  "PrimaryKeyNames dbTable = PrimaryKeyNames_loop (Columns dbTable) []"

fun NonPrimaryKeyNames_loop :: "ColumnMeta list \<Rightarrow> string list \<Rightarrow> string list" where
  "NonPrimaryKeyNames_loop [] primaryKeyNames = primaryKeyNames"
| "NonPrimaryKeyNames_loop (col # cols) primaryKeyNames =
     (if \<not> IsPrimaryKey col then NonPrimaryKeyNames_loop cols (primaryKeyNames @ [Name col])
      else NonPrimaryKeyNames_loop cols primaryKeyNames)"

definition NonPrimaryKeyNames :: "DbTableMeta \<Rightarrow> string list" where
  "NonPrimaryKeyNames dbTable = NonPrimaryKeyNames_loop (Columns dbTable) []"

section \<open>Statement generators\<close>

text \<open>
  Each \<open>for ... range dbTable.Columns()\<close> loop is a recursion over the column list
  that threads the buffer and the loop's counters; a loop that uses the index \<open>i\<close>
  carries it as an argument.
\<close>

subsection \<open>GenerateHardDeleteSQL\<close>

fun hard_delete_loop :: "bool \<Rightarrow> int \<Rightarrow> ColumnMeta list \<Rightarrow> string \<Rightarrow> int \<Rightarrow> string" where
  "hard_delete_loop namedParams primaryCnt [] buf addedKey = buf"
| "hard_delete_loop namedParams primaryCnt (col # cols) buf addedKey =
     (if IsPrimaryKey col then
        (let param = (if namedParams then ''@'' @ Name col @ ''_'' @ Sprintf_d addedKey
                      else ''$'' @ Sprintf_d addedKey);
             buf1 = buf @ '' '' @ Name col @ '' = '' @ param;
             addedKey1 = addedKey + 1;
             buf2 = (if addedKey1 < primaryCnt then buf1 @ '' AND'' else buf1)
         in hard_delete_loop namedParams primaryCnt cols buf2 addedKey1)
      else hard_delete_loop namedParams primaryCnt cols buf addedKey)"

definition GenerateHardDeleteSQL :: "DbTableMeta \<Rightarrow> bool \<Rightarrow> result" where
  "GenerateHardDeleteSQL dbTable namedParams =
     (let primaryCnt = PrimaryKeyCount dbTable in
      if primaryCnt = 0 then
        ('''', Some (Errorf (''table '' @ TableName dbTable
                              @ '' does not have a primary key, cannot generate sql'')))
      else
        (hard_delete_loop namedParams primaryCnt (Columns dbTable)
           (''DELETE FROM \"'' @ TableName dbTable @ ''\" where'') 1, None))"

subsection \<open>GenerateSoftDeleteSQL\<close>

fun soft_delete_set_loop :: "bool \<Rightarrow> ColumnMeta list \<Rightarrow> string \<Rightarrow> int \<Rightarrow> string \<times> int" where
  "soft_delete_set_loop namedParams [] buf setCol = (buf, setCol)"
| "soft_delete_set_loop namedParams (col # cols) buf setCol =
     (if Name col \<noteq> ''deleted_at'' \<and> Name col \<noteq> ''DeletedAt'' then
        soft_delete_set_loop namedParams cols buf setCol
      else
        (let buf1 = (if setCol \<noteq> 1 then buf @ '','' else buf);
             param = (if namedParams then ''@upd_'' @ Name col @ ''_'' @ Sprintf_d setCol
                      else ''$'' @ Sprintf_d setCol);
             buf2 = buf1 @ '' '' @ Name col @ '' = '' @ param
         in soft_delete_set_loop namedParams cols buf2 (setCol + 1)))"

fun soft_delete_where_loop :: "bool \<Rightarrow> ColumnMeta list \<Rightarrow> string \<Rightarrow> int \<Rightarrow> string" where
  "soft_delete_where_loop namedParams [] buf setCol = buf"
| "soft_delete_where_loop namedParams (col # cols) buf setCol =
     (if IsPrimaryKey col then
        (let param = (if namedParams then ''@'' @ Name col else ''$'' @ Sprintf_d setCol);
             buf1 = buf @ '' '' @ Name col @ '' = '' @ param
         in soft_delete_where_loop namedParams cols buf1 (setCol + 1))
      else soft_delete_where_loop namedParams cols buf setCol)"

definition GenerateSoftDeleteSQL :: "DbTableMeta \<Rightarrow> bool \<Rightarrow> result" where
  "GenerateSoftDeleteSQL dbTable namedParams =
     (let primaryCnt = PrimaryKeyCount dbTable in
      if primaryCnt = 0 then
        ('''', Some (Errorf (''table '' @ TableName dbTable
                              @ '' does not have a primary key, cannot generate sql'')))
      else
        (case soft_delete_set_loop namedParams (Columns dbTable)
                (''UPDATE \"'' @ TableName dbTable @ ''\" set'') 1 of
           (buf, setCol) \<Rightarrow>
             if setCol = 1 then
               ('''', Some (Errorf (''table '' @ TableName dbTable
                                     @ '' does not have a deleted at column, cannot generate sql'')))
             else
               (soft_delete_where_loop namedParams (Columns dbTable) (buf @ '' WHERE'') setCol,
                None)))"

subsection \<open>GenerateUpdateSQL\<close>

fun update_set_loop :: "bool \<Rightarrow> ColumnMeta list \<Rightarrow> string \<Rightarrow> int \<Rightarrow> string \<times> int" where
  "update_set_loop namedParams [] buf setCol = (buf, setCol)"
| "update_set_loop namedParams (col # cols) buf setCol =
     (if \<not> IsPrimaryKey col then
        (let buf1 = (if setCol \<noteq> 1 then buf @ '','' else buf);
             param = (if namedParams then ''@'' @ Name col else ''$'' @ Sprintf_d setCol);
             buf2 = buf1 @ '' '' @ Name col @ '' = '' @ param
         in update_set_loop namedParams cols buf2 (setCol + 1))
      else update_set_loop namedParams cols buf setCol)"

fun update_where_loop ::
  "bool \<Rightarrow> int \<Rightarrow> ColumnMeta list \<Rightarrow> string \<Rightarrow> int \<Rightarrow> int \<Rightarrow> string" where
  "update_where_loop namedParams primaryCnt [] buf setCol addedKey = buf"
| "update_where_loop namedParams primaryCnt (col # cols) buf setCol addedKey =
     (if IsPrimaryKey col then
        (let param = (if namedParams then ''@where_'' @ Name col
                      else ''$'' @ Sprintf_d (addedKey + setCol));
             buf1 = buf @ '' '' @ Name col @ '' = '' @ param;
             setCol1 = setCol + 1;
             addedKey1 = addedKey + 1;
             buf2 = (if addedKey1 < primaryCnt then buf1 @ '' AND'' else buf1)
         in update_where_loop namedParams primaryCnt cols buf2 setCol1 addedKey1)
      else update_where_loop namedParams primaryCnt cols buf setCol addedKey)"

definition GenerateUpdateSQL :: "DbTableMeta \<Rightarrow> bool \<Rightarrow> result" where
  "GenerateUpdateSQL dbTable namedParams =
     (let primaryCnt = PrimaryKeyCount dbTable in
      if primaryCnt = 0 then
        ('''', Some (Errorf (''table '' @ TableName dbTable
                              @ '' does not have a primary key, cannot generate sql'')))
      else
        (case update_set_loop namedParams (Columns dbTable)
                (''UPDATE \"'' @ TableName dbTable @ ''\" SET'') 1 of
           (buf, setCol) \<Rightarrow>
             (update_where_loop namedParams primaryCnt (Columns dbTable)
                (buf @ '' WHERE'') setCol 1, None)))"

subsection \<open>GenerateInsertSQL\<close>

fun insert_columns_loop :: "ColumnMeta list \<Rightarrow> string \<Rightarrow> bool \<Rightarrow> string" where
  "insert_columns_loop [] buf pastFirst = buf"
| "insert_columns_loop (col # cols) buf pastFirst =
     (if \<not> IsAutoIncrement col then
        (let buf1 = (if pastFirst then buf @ '', '' else buf);
             buf2 = buf1 @ '' '' @ Name col
         in insert_columns_loop cols buf2 True)
      else insert_columns_loop cols buf pastFirst)"

fun insert_values_loop ::
  "bool \<Rightarrow> int \<Rightarrow> ColumnMeta list \<Rightarrow> string \<Rightarrow> bool \<Rightarrow> int \<Rightarrow> string" where
  "insert_values_loop namedParams i [] buf pastFirst pos = buf"
| "insert_values_loop namedParams i (col # cols) buf pastFirst pos =
     (if \<not> IsAutoIncrement col then
        (let buf1 = (if pastFirst then buf @ '', '' else buf);
             param = (if namedParams then ''@'' @ Name col else ''$'' @ Sprintf_d (i + 1));
             param1 = (if IsPrimaryKey col then ''default'' else param);
             buf2 = buf1 @ param1
         in insert_values_loop namedParams (i + 1) cols buf2 True (pos + 1))
      else insert_values_loop namedParams (i + 1) cols buf pastFirst pos)"

definition GenerateInsertSQL :: "DbTableMeta \<Rightarrow> bool \<Rightarrow> result" where
  "GenerateInsertSQL dbTable namedParams =
     (let primaryCnt = PrimaryKeyCount dbTable in
      if primaryCnt = 0 then
        ('''', Some (Errorf (''table '' @ TableName dbTable
                              @ '' does not have a primary key, cannot generate sql'')))
      else
        (let buf = insert_columns_loop (Columns dbTable)
                     (''INSERT INTO \"'' @ TableName dbTable @ ''\" ('') False;
             buf1 = buf @ '') values ( '';
             buf2 = insert_values_loop namedParams 0 (Columns dbTable) buf1 False 1
         in (buf2 @ '' )'', None)))"

subsection \<open>GenerateSelectOneSQL\<close>

fun select_one_loop ::
  "bool \<Rightarrow> int \<Rightarrow> ColumnMeta list \<Rightarrow> string \<Rightarrow> bool \<Rightarrow> int \<Rightarrow> string" where
  "select_one_loop namedParams i [] buf pastFirst pos = buf"
| "select_one_loop namedParams i (col # cols) buf pastFirst pos =
     (if IsPrimaryKey col then
        (let buf1 = (if pastFirst then buf @ '' AND '' else buf);
             param = (if namedParams
                      then ''@where_'' @ Name col @ ''_'' @ Sprintf_d (i + 1)
                      else ''$'' @ Sprintf_d (i + 1));
             buf2 = buf1 @ '' '' @ Name col @ '' = '' @ param
         in select_one_loop namedParams (i + 1) cols buf2 True (pos + 1))
      else select_one_loop namedParams (i + 1) cols buf pastFirst pos)"

definition GenerateSelectOneSQL :: "DbTableMeta \<Rightarrow> bool \<Rightarrow> result" where
  "GenerateSelectOneSQL dbTable namedParams =
     (let primaryCnt = PrimaryKeyCount dbTable in
      if primaryCnt = 0 then
        ('''', Some (Errorf (''table '' @ TableName dbTable
                              @ '' does not have a primary key, cannot generate sql'')))
      else
        (select_one_loop namedParams 0 (Columns dbTable)
           (''SELECT * FROM \"'' @ TableName dbTable @ ''\" WHERE'') False 1, None))"

subsection \<open>GenerateSelectMultiSQL\<close>

fun select_multi_loop ::
  "bool \<Rightarrow> int \<Rightarrow> ColumnMeta list \<Rightarrow> string \<Rightarrow> bool \<Rightarrow> int \<Rightarrow> string" where
  "select_multi_loop namedParams i [] buf pastFirst pos = buf"
| "select_multi_loop namedParams i (col # cols) buf pastFirst pos =
     (if IsPrimaryKey col then
        (let buf1 = (if pastFirst then buf @ '' AND '' else buf);
             param = (if namedParams
                      then ''@where_'' @ Name col @ ''_'' @ Sprintf_d (i + 1)
                      else ''$'' @ Sprintf_d (i + 1));
             buf2 = buf1 @ '' '' @ Name col @ '' = ANY('' @ param @ ''::''
                      @ ColumnType col @ ''[])''
         in select_multi_loop namedParams (i + 1) cols buf2 True (pos + 1))
      else select_multi_loop namedParams (i + 1) cols buf pastFirst pos)"

definition GenerateSelectMultiSQL :: "DbTableMeta \<Rightarrow> bool \<Rightarrow> result" where
  "GenerateSelectMultiSQL dbTable namedParams =
     (let primaryCnt = PrimaryKeyCount dbTable in
      if primaryCnt = 0 then
        ('''', Some (Errorf (''table '' @ TableName dbTable
                              @ '' does not have a primary key, cannot generate sql'')))
      else
        (select_multi_loop namedParams 0 (Columns dbTable)
           (''SELECT * FROM \"'' @ TableName dbTable @ ''\" WHERE'') False 1, None))"

subsection \<open>GenerateSelectAllSQL\<close>

definition GenerateSelectAllSQL :: "DbTableMeta \<Rightarrow> result" where
  "GenerateSelectAllSQL dbTable =
     (let primaryCnt = PrimaryKeyCount dbTable in
      if primaryCnt = 0 then
        ('''', Some (Errorf (''table '' @ TableName dbTable
                              @ '' does not have a primary key, cannot generate sql'')))
      else
        (''SELECT * FROM \"'' @ TableName dbTable @ ''\"'', None))"

section \<open>Vocabulary of the specification\<close>

text \<open>
  The two failures of the specification are the two messages the generators pass to
  \<open>fmt.Errorf\<close>: \<open>NoPrimaryKeyError\<close> is the value built at the top of every generator,
  \<open>NoDeletedAtColumnError\<close> the one built after the first loop of
  \<open>GenerateSoftDeleteSQL\<close>.
\<close>

definition NoPrimaryKeyError :: "string \<Rightarrow> error" where
  "NoPrimaryKeyError tableName =
     Errorf (''table '' @ tableName @ '' does not have a primary key, cannot generate sql'')"

definition NoDeletedAtColumnError :: "string \<Rightarrow> error" where
  "NoDeletedAtColumnError tableName =
     Errorf (''table '' @ tableName @ '' does not have a deleted at column, cannot generate sql'')"

text \<open>A column that the soft delete sets: named exactly \<open>deleted_at\<close> or \<open>DeletedAt\<close>.\<close>

definition is_deleted_at :: "ColumnMeta \<Rightarrow> bool" where
  "is_deleted_at c \<longleftrightarrow> Name c = ''deleted_at'' \<or> Name c = ''DeletedAt''"

text \<open>
  A clause "joined by" a separator: the separator stands between consecutive entries
  and nowhere else. \<open>continue_join\<close> is the same clause when entries were already
  written before it, as in the middle of a loop.
\<close>

fun join :: "string \<Rightarrow> string list \<Rightarrow> string" where
  "join sep [] = []"
| "join sep [s] = s"
| "join sep (s # t # ss) = s @ sep @ join sep (t # ss)"

definition continue_join :: "bool \<Rightarrow> string \<Rightarrow> string list \<Rightarrow> string" where
  "continue_join pastFirst sep ss =
     (if pastFirst then concat (map (\<lambda>s. sep @ s) ss) else join sep ss)"

section \<open>Example tables\<close>

definition users :: DbTableMeta where
  "users = \<lparr>TableName = ''users'', Columns =
     [\<lparr>Name = ''id'', ColumnType = ''int'', IsPrimaryKey = True, IsAutoIncrement = True\<rparr>,
      \<lparr>Name = ''name'', ColumnType = ''text'', IsPrimaryKey = False, IsAutoIncrement = False\<rparr>,
      \<lparr>Name = ''deleted_at'', ColumnType = ''timestamptz'', IsPrimaryKey = False,
         IsAutoIncrement = False\<rparr>]\<rparr>"

definition keyless :: DbTableMeta where
  "keyless = \<lparr>TableName = ''audit'', Columns =
     [\<lparr>Name = ''msg'', ColumnType = ''text'', IsPrimaryKey = False, IsAutoIncrement = False\<rparr>]\<rparr>"

definition two_keys :: DbTableMeta where
  "two_keys = \<lparr>TableName = ''t'', Columns =
     [\<lparr>Name = ''a'', ColumnType = ''int'', IsPrimaryKey = True, IsAutoIncrement = False\<rparr>,
      \<lparr>Name = ''b'', ColumnType = ''int'', IsPrimaryKey = True, IsAutoIncrement = False\<rparr>]\<rparr>"

definition two_keys_deleted_at :: DbTableMeta where
  "two_keys_deleted_at = \<lparr>TableName = ''t'', Columns =
     [\<lparr>Name = ''a'', ColumnType = ''int'', IsPrimaryKey = True, IsAutoIncrement = False\<rparr>,
      \<lparr>Name = ''b'', ColumnType = ''int'', IsPrimaryKey = True, IsAutoIncrement = False\<rparr>,
      \<lparr>Name = ''deleted_at'', ColumnType = ''timestamptz'', IsPrimaryKey = False,
         IsAutoIncrement = False\<rparr>]\<rparr>"

definition one_key_one_value :: DbTableMeta where
  "one_key_one_value = \<lparr>TableName = ''t'', Columns =
     [\<lparr>Name = ''x'', ColumnType = ''text'', IsPrimaryKey = False, IsAutoIncrement = False\<rparr>,
      \<lparr>Name = ''a'', ColumnType = ''int'', IsPrimaryKey = True, IsAutoIncrement = False\<rparr>]\<rparr>"

definition orders :: DbTableMeta where
  "orders = \<lparr>TableName = ''orders'', Columns =
     [\<lparr>Name = ''id'', ColumnType = ''bigint'', IsPrimaryKey = True, IsAutoIncrement = True\<rparr>,
      \<lparr>Name = ''code'', ColumnType = ''text'', IsPrimaryKey = True, IsAutoIncrement = False\<rparr>,
      \<lparr>Name = ''qty'', ColumnType = ''int'', IsPrimaryKey = False, IsAutoIncrement = False\<rparr>]\<rparr>"

definition memberships :: DbTableMeta where
  "memberships = \<lparr>TableName = ''memberships'', Columns =
     [\<lparr>Name = ''org_id'', ColumnType = ''uuid'', IsPrimaryKey = True, IsAutoIncrement = False\<rparr>,
      \<lparr>Name = ''note'', ColumnType = ''text'', IsPrimaryKey = False, IsAutoIncrement = False\<rparr>,
      \<lparr>Name = ''user_id'', ColumnType = ''bigint'', IsPrimaryKey = True,
         IsAutoIncrement = False\<rparr>]\<rparr>"

definition events :: DbTableMeta where
  "events = \<lparr>TableName = ''events'', Columns =
     [\<lparr>Name = ''id'', ColumnType = ''int'', IsPrimaryKey = True, IsAutoIncrement = True\<rparr>,
      \<lparr>Name = ''Deleted_At'', ColumnType = ''timestamptz'', IsPrimaryKey = False,
         IsAutoIncrement = False\<rparr>,
      \<lparr>Name = ''removed_at'', ColumnType = ''timestamptz'', IsPrimaryKey = False,
         IsAutoIncrement = False\<rparr>]\<rparr>"

definition no_columns :: DbTableMeta where
  "no_columns = \<lparr>TableName = ''t'', Columns = []\<rparr>"

section \<open>What the loops compute\<close>

lemma PrimaryKeyCount_loop_eq:
  "PrimaryKeyCount_loop cols n = n + int (length (filter IsPrimaryKey cols))"
  by (induction cols arbitrary: n) simp_all

lemma PrimaryKeyCount_eq:
  "PrimaryKeyCount t = int (length (filter IsPrimaryKey (Columns t)))"
  by (simp add: PrimaryKeyCount_def PrimaryKeyCount_loop_eq)

lemma PrimaryKeyCount_zero_iff:
  "PrimaryKeyCount t = 0 \<longleftrightarrow> (\<forall>c \<in> set (Columns t). \<not> IsPrimaryKey c)"
  by (simp add: PrimaryKeyCount_eq filter_empty_conv)

lemma join_Cons: "join sep (s # ss) = s @ concat (map (\<lambda>x. sep @ x) ss)"
  by (induction ss arbitrary: s) simp_all

lemma continue_join_Nil [simp]: "continue_join pf sep [] = []"
  by (simp add: continue_join_def)

lemma continue_join_Cons:
  "continue_join pf sep (s # ss) = (if pf then sep @ s else s) @ continue_join True sep ss"
  by (simp add: continue_join_def join_Cons)

lemma message_differs:
  "NoPrimaryKeyError x \<noteq> NoDeletedAtColumnError y"
proof
  assume "NoPrimaryKeyError x = NoDeletedAtColumnError y"
  then have "rev (x @ '' does not have a primary key, cannot generate sql'')
           = rev (y @ '' does not have a deleted at column, cannot generate sql'')"
    by (simp add: NoPrimaryKeyError_def NoDeletedAtColumnError_def)
  then show False by simp
qed

lemma int_Suc_step: "int n + 1 = int (Suc n)"
  by simp

lemma select_one_loop_eq:
  "select_one_loop namedParams (int n) cols buf pastFirst pos =
     buf @ continue_join pastFirst '' AND ''
       (map (\<lambda>(i, c). '' '' @ Name c @ '' = '' @
               (if namedParams then ''@where_'' @ Name c @ ''_'' @ Sprintf_d (int i + 1)
                else ''$'' @ Sprintf_d (int i + 1)))
          (filter (\<lambda>(i, c). IsPrimaryKey c) (enumerate n cols)))"
proof (induction cols arbitrary: n buf pastFirst pos)
  case Nil
  then show ?case by simp
next
  case (Cons c cols)
  note IH = Cons.IH [where n = "Suc n", unfolded int_Suc_step [symmetric]]
  show ?case
    by (simp add: IH Let_def continue_join_Cons)
qed

lemma select_multi_loop_eq:
  "select_multi_loop namedParams (int n) cols buf pastFirst pos =
     buf @ continue_join pastFirst '' AND ''
       (map (\<lambda>(i, c). '' '' @ Name c @ '' = ANY('' @
               (if namedParams then ''@where_'' @ Name c @ ''_'' @ Sprintf_d (int i + 1)
                else ''$'' @ Sprintf_d (int i + 1)) @ ''::'' @ ColumnType c @ ''[])'')
          (filter (\<lambda>(i, c). IsPrimaryKey c) (enumerate n cols)))"
proof (induction cols arbitrary: n buf pastFirst pos)
  case Nil
  then show ?case by simp
next
  case (Cons c cols)
  note IH = Cons.IH [where n = "Suc n", unfolded int_Suc_step [symmetric]]
  show ?case
    by (simp add: IH Let_def continue_join_Cons)
qed

lemma insert_columns_loop_eq:
  "insert_columns_loop cols buf pastFirst =
     buf @ continue_join pastFirst '', ''
       (map (\<lambda>c. '' '' @ Name c) (filter (\<lambda>c. \<not> IsAutoIncrement c) cols))"
proof (induction cols arbitrary: buf pastFirst)
  case Nil
  then show ?case by simp
next
  case (Cons c cols)
  show ?case
    unfolding insert_columns_loop.simps Let_def
    by (simp only: Cons.IH) (simp add: continue_join_Cons)
qed

lemma insert_values_loop_eq:
  "insert_values_loop namedParams (int n) cols buf pastFirst pos =
     buf @ continue_join pastFirst '', ''
       (map (\<lambda>(i, c). if IsPrimaryKey c then ''default''
                        else if namedParams then ''@'' @ Name c
                        else ''$'' @ Sprintf_d (int i + 1))
          (filter (\<lambda>(i, c). \<not> IsAutoIncrement c) (enumerate n cols)))"
proof (induction cols arbitrary: n buf pastFirst pos)
  case Nil
  then show ?case by simp
next
  case (Cons c cols)
  note IH = Cons.IH [where n = "Suc n", unfolded int_Suc_step [symmetric]]
  show ?case
    by (simp add: IH Let_def continue_join_Cons)
qed

lemma not_deleted_at_cond:
  "(Name c \<noteq> ''deleted_at'' \<and> Name c \<noteq> ''DeletedAt'') = (\<not> is_deleted_at c)"
  by (simp add: is_deleted_at_def)

lemma soft_delete_set_loop_eq:
  "1 \<le> n \<Longrightarrow>
   soft_delete_set_loop namedParams cols buf (int n) =
     (buf @ continue_join (n \<noteq> 1) '',''
        (map (\<lambda>(k, c). '' '' @ Name c @ '' = '' @
                (if namedParams then ''@upd_'' @ Name c @ ''_'' @ Sprintf_d (int k)
                 else ''$'' @ Sprintf_d (int k)))
           (enumerate n (filter is_deleted_at cols))),
      int (n + length (filter is_deleted_at cols)))"
proof (induction cols arbitrary: n buf)
  case Nil
  then show ?case by simp
next
  case (Cons c cols)
  have "1 \<le> Suc n" by simp
  note IH = Cons.IH [OF this, unfolded int_Suc_step [symmetric]]
  show ?case
    unfolding soft_delete_set_loop.simps not_deleted_at_cond
    using Cons.prems Cons.IH [OF Cons.prems]
    by (simp add: IH Let_def continue_join_Cons)
qed

lemma soft_delete_where_loop_eq:
  "soft_delete_where_loop namedParams cols buf (int n) =
     buf @ concat
       (map (\<lambda>(k, c). '' '' @ Name c @ '' = '' @
               (if namedParams then ''@'' @ Name c else ''$'' @ Sprintf_d (int k)))
          (enumerate n (filter IsPrimaryKey cols)))"
proof (induction cols arbitrary: n buf)
  case Nil
  then show ?case by simp
next
  case (Cons c cols)
  note IH = Cons.IH [where n = "Suc n", unfolded int_Suc_step [symmetric]]
  show ?case
    by (simp add: IH Cons.IH Let_def)
qed

lemma update_set_loop_eq:
  "1 \<le> n \<Longrightarrow>
   update_set_loop namedParams cols buf (int n) =
     (buf @ continue_join (n \<noteq> 1) '',''
        (map (\<lambda>(k, c). '' '' @ Name c @ '' = '' @
                (if namedParams then ''@'' @ Name c else ''$'' @ Sprintf_d (int k)))
           (enumerate n (filter (\<lambda>c. \<not> IsPrimaryKey c) cols))),
      int (n + length (filter (\<lambda>c. \<not> IsPrimaryKey c) cols)))"
proof (induction cols arbitrary: n buf)
  case Nil
  then show ?case by simp
next
  case (Cons c cols)
  have "1 \<le> Suc n" by simp
  note IH = Cons.IH [OF this, unfolded int_Suc_step [symmetric]]
  show ?case
    using Cons.prems Cons.IH [OF Cons.prems]
    by (simp add: IH Let_def continue_join_Cons)
qed

lemma update_where_loop_eq:
  "update_where_loop namedParams primaryCnt cols buf (int n + d) (int n) =
     buf @ concat
       (map (\<lambda>(k, c). '' '' @ Name c @ '' = '' @
               (if namedParams then ''@where_'' @ Name c
                else ''$'' @ Sprintf_d (2 * int k + d)) @
               (if int k + 1 < primaryCnt then '' AND'' else []))
          (enumerate n (filter IsPrimaryKey cols)))"
proof (induction cols arbitrary: n buf)
  case Nil
  then show ?case by simp
next
  case (Cons c cols)
  have step: "int n + d + 1 = int n + 1 + d" by simp
  note IH = Cons.IH [where n = "Suc n", unfolded int_Suc_step [symmetric]]
  show ?case
    unfolding update_where_loop.simps Let_def step
    by (simp add: IH Cons.IH)
qed

lemma hard_delete_loop_eq:
  "hard_delete_loop namedParams primaryCnt cols buf (int n) =
     buf @ concat
       (map (\<lambda>(k, c). '' '' @ Name c @ '' = '' @
               (if namedParams then ''@'' @ Name c @ ''_'' @ Sprintf_d (int k)
                else ''$'' @ Sprintf_d (int k)) @
               (if int k + 1 < primaryCnt then '' AND'' else []))
          (enumerate n (filter IsPrimaryKey cols)))"
proof (induction cols arbitrary: n buf)
  case Nil
  then show ?case by simp
next
  case (Cons c cols)
  note IH = Cons.IH [where n = "Suc n", unfolded int_Suc_step [symmetric]]
  show ?case
    by (simp add: IH Cons.IH Let_def)
qed

lemma has_primary_key:
  "(\<exists>c \<in> set (Columns t). IsPrimaryKey c) \<longleftrightarrow> PrimaryKeyCount t \<noteq> 0"
  by (simp add: PrimaryKeyCount_zero_iff)

lemma GenerateHardDeleteSQL_eq:
  assumes "PrimaryKeyCount t \<noteq> 0"
  shows "GenerateHardDeleteSQL t namedParams =
    (''DELETE FROM \"'' @ TableName t @ ''\" where'' @ concat
       (map (\<lambda>(k, c). '' '' @ Name c @ '' = '' @
               (if namedParams then ''@'' @ Name c @ ''_'' @ Sprintf_d (int k)
                else ''$'' @ Sprintf_d (int k)) @
               (if int k + 1 < PrimaryKeyCount t then '' AND'' else []))
          (enumerate 1 (filter IsPrimaryKey (Columns t)))), None)"
  using assms hard_delete_loop_eq [where n = 1]
  by (simp add: GenerateHardDeleteSQL_def)

lemma GenerateSoftDeleteSQL_eq:
  assumes "PrimaryKeyCount t \<noteq> 0"
  shows "GenerateSoftDeleteSQL t namedParams =
    (if filter is_deleted_at (Columns t) = [] then
       ('''', Some (NoDeletedAtColumnError (TableName t)))
     else
       (''UPDATE \"'' @ TableName t @ ''\" set'' @
        join '',''
          (map (\<lambda>(k, c). '' '' @ Name c @ '' = '' @
                  (if namedParams then ''@upd_'' @ Name c @ ''_'' @ Sprintf_d (int k)
                   else ''$'' @ Sprintf_d (int k)))
             (enumerate 1 (filter is_deleted_at (Columns t)))) @
        '' WHERE'' @
        concat
          (map (\<lambda>(k, c). '' '' @ Name c @ '' = '' @
                  (if namedParams then ''@'' @ Name c else ''$'' @ Sprintf_d (int k)))
             (enumerate (1 + length (filter is_deleted_at (Columns t)))
                (filter IsPrimaryKey (Columns t)))), None))"
proof -
  have set_loop: "soft_delete_set_loop namedParams (Columns t) buf 1 =
     (buf @ join '',''
        (map (\<lambda>(k, c). '' '' @ Name c @ '' = '' @
                (if namedParams then ''@upd_'' @ Name c @ ''_'' @ Sprintf_d (int k)
                 else ''$'' @ Sprintf_d (int k)))
           (enumerate 1 (filter is_deleted_at (Columns t)))),
      int (1 + length (filter is_deleted_at (Columns t))))" for buf
    using soft_delete_set_loop_eq [of 1 namedParams "Columns t" buf]
    by (simp add: continue_join_def)
  have no_column: "(int (1 + length (filter is_deleted_at (Columns t))) = 1)
                     = (filter is_deleted_at (Columns t) = [])"
    by simp
  show ?thesis
    using assms
    by (simp only: GenerateSoftDeleteSQL_def Let_def set_loop soft_delete_where_loop_eq
        no_column NoDeletedAtColumnError_def if_False prod.case append_assoc)
qed

lemma GenerateUpdateSQL_eq:
  assumes "PrimaryKeyCount t \<noteq> 0"
  shows "GenerateUpdateSQL t namedParams =
    (''UPDATE \"'' @ TableName t @ ''\" SET'' @
     join '',''
       (map (\<lambda>(k, c). '' '' @ Name c @ '' = '' @
               (if namedParams then ''@'' @ Name c else ''$'' @ Sprintf_d (int k)))
          (enumerate 1 (filter (\<lambda>c. \<not> IsPrimaryKey c) (Columns t)))) @
     '' WHERE'' @
     concat
       (map (\<lambda>(k, c). '' '' @ Name c @ '' = '' @
               (if namedParams then ''@where_'' @ Name c
                else ''$'' @ Sprintf_d
                       (2 * int k + int (length (filter (\<lambda>c. \<not> IsPrimaryKey c) (Columns t))))) @
               (if int k + 1 < PrimaryKeyCount t then '' AND'' else []))
          (enumerate 1 (filter IsPrimaryKey (Columns t)))), None)"
proof -
  have set_loop: "update_set_loop namedParams (Columns t) buf 1 =
     (buf @ join '',''
        (map (\<lambda>(k, c). '' '' @ Name c @ '' = '' @
                (if namedParams then ''@'' @ Name c else ''$'' @ Sprintf_d (int k)))
           (enumerate 1 (filter (\<lambda>c. \<not> IsPrimaryKey c) (Columns t)))),
      int 1 + int (length (filter (\<lambda>c. \<not> IsPrimaryKey c) (Columns t))))" for buf
    using update_set_loop_eq [of 1 namedParams "Columns t" buf]
    by (simp add: continue_join_def)
  have where_loop: "update_where_loop namedParams p (Columns t) buf (int 1 + d) 1 =
     buf @ concat
       (map (\<lambda>(k, c). '' '' @ Name c @ '' = '' @
               (if namedParams then ''@where_'' @ Name c
                else ''$'' @ Sprintf_d (2 * int k + d)) @
               (if int k + 1 < p then '' AND'' else []))
          (enumerate 1 (filter IsPrimaryKey (Columns t))))" for p buf d
    using update_where_loop_eq [of namedParams p "Columns t" buf 1 d] by simp
  show ?thesis
    using assms
    by (simp only: GenerateUpdateSQL_def Let_def set_loop where_loop if_False prod.case append_assoc)
qed

lemma GenerateInsertSQL_eq:
  assumes "PrimaryKeyCount t \<noteq> 0"
  shows "GenerateInsertSQL t namedParams =
    (''INSERT INTO \"'' @ TableName t @ ''\" ('' @
     join '', ''
       (map (\<lambda>c. '' '' @ Name c) (filter (\<lambda>c. \<not> IsAutoIncrement c) (Columns t))) @
     '') values ( '' @
     join '', ''
       (map (\<lambda>(i, c). if IsPrimaryKey c then ''default''
                        else if namedParams then ''@'' @ Name c
                        else ''$'' @ Sprintf_d (int i + 1))
          (filter (\<lambda>(i, c). \<not> IsAutoIncrement c) (enumerate 0 (Columns t)))) @
     '' )'', None)"
  using assms insert_values_loop_eq [where n = 0]
  by (simp add: GenerateInsertSQL_def insert_columns_loop_eq continue_join_def)

lemma GenerateSelectOneSQL_eq:
  assumes "PrimaryKeyCount t \<noteq> 0"
  shows "GenerateSelectOneSQL t namedParams =
    (''SELECT * FROM \"'' @ TableName t @ ''\" WHERE'' @
     join '' AND ''
       (map (\<lambda>(i, c). '' '' @ Name c @ '' = '' @
               (if namedParams then ''@where_'' @ Name c @ ''_'' @ Sprintf_d (int i + 1)
                else ''$'' @ Sprintf_d (int i + 1)))
          (filter (\<lambda>(i, c). IsPrimaryKey c) (enumerate 0 (Columns t)))), None)"
  using assms select_one_loop_eq [where n = 0]
  by (simp add: GenerateSelectOneSQL_def continue_join_def)

lemma GenerateSelectMultiSQL_eq:
  assumes "PrimaryKeyCount t \<noteq> 0"
  shows "GenerateSelectMultiSQL t namedParams =
    (''SELECT * FROM \"'' @ TableName t @ ''\" WHERE'' @
     join '' AND ''
       (map (\<lambda>(i, c). '' '' @ Name c @ '' = ANY('' @
               (if namedParams then ''@where_'' @ Name c @ ''_'' @ Sprintf_d (int i + 1)
                else ''$'' @ Sprintf_d (int i + 1)) @ ''::'' @ ColumnType c @ ''[])'')
          (filter (\<lambda>(i, c). IsPrimaryKey c) (enumerate 0 (Columns t)))), None)"
  using assms select_multi_loop_eq [where n = 0]
  by (simp add: GenerateSelectMultiSQL_def continue_join_def)
section \<open>Evaluation on concrete input\<close>

lemma evaluate_digits [simp]:
  "Sprintf_d 1 = ''1''" "Sprintf_d 2 = ''2''" "Sprintf_d 3 = ''3''" "Sprintf_d 4 = ''4''"
  by (simp_all add: Sprintf_d_def digits.simps digit_def)

section \<open>Tables without a primary key\<close>

lemma no_key_result:
  assumes "PrimaryKeyCount t = 0"
  shows "GenerateHardDeleteSQL t namedParams = ('''', Some (NoPrimaryKeyError (TableName t)))"
    and "GenerateSoftDeleteSQL t namedParams = ('''', Some (NoPrimaryKeyError (TableName t)))"
    and "GenerateUpdateSQL t namedParams = ('''', Some (NoPrimaryKeyError (TableName t)))"
    and "GenerateInsertSQL t namedParams = ('''', Some (NoPrimaryKeyError (TableName t)))"
    and "GenerateSelectOneSQL t namedParams = ('''', Some (NoPrimaryKeyError (TableName t)))"
    and "GenerateSelectMultiSQL t namedParams = ('''', Some (NoPrimaryKeyError (TableName t)))"
    and "GenerateSelectAllSQL t = ('''', Some (NoPrimaryKeyError (TableName t)))"
  using assms
  by (simp_all add: GenerateHardDeleteSQL_def GenerateSoftDeleteSQL_def GenerateUpdateSQL_def
      GenerateInsertSQL_def GenerateSelectOneSQL_def GenerateSelectMultiSQL_def
      GenerateSelectAllSQL_def NoPrimaryKeyError_def)

lemma table_name_in_message:
  "sublist n (message (NoPrimaryKeyError n))"
  "sublist n (message (NoDeletedAtColumnError n))"
  by (simp_all only: NoPrimaryKeyError_def NoDeletedAtColumnError_def message.simps
      sublist_appendI)

text \<open>
  C1. When no column of the table is a primary key, each of the seven generators
  returns the empty string together with the no-primary-key error, in both parameter
  modes (\<open>GenerateSelectAllSQL\<close> takes no mode), and the table name occurs in the
  error's message.
\<close>

theorem no_primary_key_error:
  assumes "\<forall>c \<in> set (Columns t). \<not> IsPrimaryKey c"
  shows "GenerateHardDeleteSQL t namedParams = ('''', Some (NoPrimaryKeyError (TableName t)))
       \<and> GenerateSoftDeleteSQL t namedParams = ('''', Some (NoPrimaryKeyError (TableName t)))
       \<and> GenerateUpdateSQL t namedParams = ('''', Some (NoPrimaryKeyError (TableName t)))
       \<and> GenerateInsertSQL t namedParams = ('''', Some (NoPrimaryKeyError (TableName t)))
       \<and> GenerateSelectOneSQL t namedParams = ('''', Some (NoPrimaryKeyError (TableName t)))
       \<and> GenerateSelectMultiSQL t namedParams = ('''', Some (NoPrimaryKeyError (TableName t)))
       \<and> GenerateSelectAllSQL t = ('''', Some (NoPrimaryKeyError (TableName t)))
       \<and> sublist (TableName t) (message (NoPrimaryKeyError (TableName t)))"
proof -
  from assms have "PrimaryKeyCount t = 0"
    by (simp add: PrimaryKeyCount_zero_iff)
  then show ?thesis
    by (simp only: no_key_result table_name_in_message simp_thms)
qed

theorem no_primary_key_error_witness:
  "list_all (\<lambda>c. \<not> IsPrimaryKey c) (Columns keyless)
   \<and> GenerateHardDeleteSQL keyless True
       = ('''', Some (Errorf ''table audit does not have a primary key, cannot generate sql''))
   \<and> GenerateSelectAllSQL keyless
       = ('''', Some (Errorf ''table audit does not have a primary key, cannot generate sql''))
   \<and> sublist ''audit'' ''table audit does not have a primary key, cannot generate sql''"
  using no_primary_key_error [of keyless True]
  by (simp add: keyless_def NoPrimaryKeyError_def)

section \<open>Concrete scenarios\<close>

text \<open>
  C2. The claim: with at least one primary key, hard delete, update, select-one and
  select-multi join one equality per primary key by \<open>AND\<close>; for the table \<open>t\<close> with
  the two primary keys \<open>a\<close> and \<open>b\<close>, hard delete in named mode gives
  \<open>DELETE FROM "t" where a = @a_1 AND b = @b_2\<close>. The hard delete loop tests
  \<open>addedKey < primaryCnt\<close> after it has incremented \<open>addedKey\<close>, so with two keys it
  writes no \<open>AND\<close> at all: evaluated here.
\<close>

theorem hard_delete_two_keys_named:
  "GenerateHardDeleteSQL two_keys True = (''DELETE FROM \"t\" where a = @a_1 b = @b_2'', None)
   \<and> GenerateHardDeleteSQL two_keys True
       \<noteq> (''DELETE FROM \"t\" where a = @a_1 AND b = @b_2'', None)"
  by (simp add: GenerateHardDeleteSQL_def PrimaryKeyCount_def two_keys_def)

text \<open>
  C3, amended. For the table \<open>users\<close> with the ordered columns \<open>id\<close> (primary key,
  auto-increment), \<open>name\<close> and \<open>deleted_at\<close>, in positional mode,
  \<open>GenerateInsertSQL\<close> returns \<open>INSERT INTO "users" ( name,  deleted_at) values ( $2, $3 )\<close>,
  with two spaces after the comma of the column list, and \<open>GenerateSelectOneSQL\<close>
  returns \<open>SELECT * FROM "users" WHERE id = $1\<close>, with one space after \<open>WHERE\<close>; each
  with a nil error.
\<close>

theorem users_insert_select_one:
  "GenerateInsertSQL users False
     = (''INSERT INTO \"users\" ( name,  deleted_at) values ( $2, $3 )'', None)
   \<and> GenerateSelectOneSQL users False = (''SELECT * FROM \"users\" WHERE id = $1'', None)"
  by (simp add: GenerateInsertSQL_def GenerateSelectOneSQL_def PrimaryKeyCount_def users_def)

text \<open>
  C3 as stated gives the insert with one space after the comma and the select with
  two spaces after \<open>WHERE\<close>; neither is what is returned.
\<close>

theorem users_insert_select_one_counterexample:
  "GenerateInsertSQL users False
     \<noteq> (''INSERT INTO \"users\" ( name, deleted_at) values ( $2, $3 )'', None)
   \<and> GenerateSelectOneSQL users False \<noteq> (''SELECT * FROM \"users\" WHERE  id = $1'', None)"
  by (simp add: GenerateInsertSQL_def GenerateSelectOneSQL_def PrimaryKeyCount_def users_def)

section \<open>Soft delete\<close>

text \<open>
  C4. With at least one primary key and at least one column named exactly
  \<open>deleted_at\<close> or \<open>DeletedAt\<close>, \<open>GenerateSoftDeleteSQL\<close> succeeds. Its SET clause has
  one entry per such column and no other, with the placeholder \<open>@upd_<colname>_<n>\<close> in
  named mode and \<open>$<n>\<close> in positional mode, \<open>n\<close> counting from 1. Its WHERE clause has
  one entry per primary key, with the placeholder \<open>@<colname>\<close> in named mode and, in
  positional mode, the numbers that follow the last number of the SET clause. For the
  table \<open>users\<close> in positional mode the statement is
  \<open>UPDATE "users" set deleted_at = $1 WHERE id = $2\<close>.
\<close>

theorem soft_delete_sql:
  "((\<exists>c \<in> set (Columns t). IsPrimaryKey c) \<and> (\<exists>c \<in> set (Columns t). is_deleted_at c) \<longrightarrow>
    GenerateSoftDeleteSQL t namedParams =
      (''UPDATE \"'' @ TableName t @ ''\" set'' @
       join '',''
         (map (\<lambda>(n, c). '' '' @ Name c @ '' = '' @
                 (if namedParams then ''@upd_'' @ Name c @ ''_'' @ Sprintf_d (int n)
                  else ''$'' @ Sprintf_d (int n)))
            (enumerate 1 (filter is_deleted_at (Columns t)))) @
       '' WHERE'' @
       concat
         (map (\<lambda>(n, c). '' '' @ Name c @ '' = '' @
                 (if namedParams then ''@'' @ Name c else ''$'' @ Sprintf_d (int n)))
            (enumerate (1 + length (filter is_deleted_at (Columns t)))
               (filter IsPrimaryKey (Columns t)))), None))
   \<and> GenerateSoftDeleteSQL users False
       = (''UPDATE \"users\" set deleted_at = $1 WHERE id = $2'', None)"
proof (intro conjI impI)
  assume "(\<exists>c \<in> set (Columns t). IsPrimaryKey c) \<and> (\<exists>c \<in> set (Columns t). is_deleted_at c)"
  then have key: "PrimaryKeyCount t \<noteq> 0" and col: "filter is_deleted_at (Columns t) \<noteq> []"
    by (simp_all add: has_primary_key filter_empty_conv)
  show "GenerateSoftDeleteSQL t namedParams =
      (''UPDATE \"'' @ TableName t @ ''\" set'' @
       join '',''
         (map (\<lambda>(n, c). '' '' @ Name c @ '' = '' @
                 (if namedParams then ''@upd_'' @ Name c @ ''_'' @ Sprintf_d (int n)
                  else ''$'' @ Sprintf_d (int n)))
            (enumerate 1 (filter is_deleted_at (Columns t)))) @
       '' WHERE'' @
       concat
         (map (\<lambda>(n, c). '' '' @ Name c @ '' = '' @
                 (if namedParams then ''@'' @ Name c else ''$'' @ Sprintf_d (int n)))
            (enumerate (1 + length (filter is_deleted_at (Columns t)))
               (filter IsPrimaryKey (Columns t)))), None)"
    unfolding GenerateSoftDeleteSQL_eq [OF key] using col by simp
next
  show "GenerateSoftDeleteSQL users False
       = (''UPDATE \"users\" set deleted_at = $1 WHERE id = $2'', None)"
    by (simp add: GenerateSoftDeleteSQL_def PrimaryKeyCount_def users_def)
qed

theorem soft_delete_sql_witness:
  "list_ex IsPrimaryKey (Columns users) \<and> list_ex is_deleted_at (Columns users)
   \<and> GenerateSoftDeleteSQL users True
       = (''UPDATE \"users\" set deleted_at = @upd_deleted_at_1 WHERE id = @id'', None)"
  using soft_delete_sql [of users True]
  by (simp add: users_def is_deleted_at_def)

text \<open>
  C5. The claim: with two or more primary keys and a \<open>deleted_at\<close> column, the WHERE
  clause of the soft delete joins the primary keys by \<open>AND\<close>. The second loop of
  \<open>GenerateSoftDeleteSQL\<close> writes no separator, so the equalities follow each other
  with a space only: evaluated here on the table \<open>t\<close> with the primary keys \<open>a\<close> and
  \<open>b\<close> and the column \<open>deleted_at\<close>.
\<close>

theorem soft_delete_two_keys:
  "GenerateSoftDeleteSQL two_keys_deleted_at False
     = (''UPDATE \"t\" set deleted_at = $1 WHERE a = $2 b = $3'', None)
   \<and> GenerateSoftDeleteSQL two_keys_deleted_at True
     = (''UPDATE \"t\" set deleted_at = @upd_deleted_at_1 WHERE a = @a b = @b'', None)"
  by (simp add: GenerateSoftDeleteSQL_def PrimaryKeyCount_def two_keys_deleted_at_def)

lemma never_no_deleted_at:
  "snd (GenerateHardDeleteSQL t namedParams) \<noteq> Some (NoDeletedAtColumnError n)"
  "snd (GenerateUpdateSQL t namedParams) \<noteq> Some (NoDeletedAtColumnError n)"
  "snd (GenerateInsertSQL t namedParams) \<noteq> Some (NoDeletedAtColumnError n)"
  "snd (GenerateSelectOneSQL t namedParams) \<noteq> Some (NoDeletedAtColumnError n)"
  "snd (GenerateSelectMultiSQL t namedParams) \<noteq> Some (NoDeletedAtColumnError n)"
  "snd (GenerateSelectAllSQL t) \<noteq> Some (NoDeletedAtColumnError n)"
proof -
  show "snd (GenerateHardDeleteSQL t namedParams) \<noteq> Some (NoDeletedAtColumnError n)"
    by (cases "PrimaryKeyCount t = 0")
      (simp_all add: no_key_result GenerateHardDeleteSQL_eq message_differs)
  show "snd (GenerateUpdateSQL t namedParams) \<noteq> Some (NoDeletedAtColumnError n)"
    by (cases "PrimaryKeyCount t = 0")
      (simp_all add: no_key_result GenerateUpdateSQL_eq message_differs)
  show "snd (GenerateInsertSQL t namedParams) \<noteq> Some (NoDeletedAtColumnError n)"
    by (cases "PrimaryKeyCount t = 0")
      (simp_all add: no_key_result GenerateInsertSQL_eq message_differs)
  show "snd (GenerateSelectOneSQL t namedParams) \<noteq> Some (NoDeletedAtColumnError n)"
    by (cases "PrimaryKeyCount t = 0")
      (simp_all add: no_key_result GenerateSelectOneSQL_eq message_differs)
  show "snd (GenerateSelectMultiSQL t namedParams) \<noteq> Some (NoDeletedAtColumnError n)"
    by (cases "PrimaryKeyCount t = 0")
      (simp_all add: no_key_result GenerateSelectMultiSQL_eq message_differs)
  show "snd (GenerateSelectAllSQL t) \<noteq> Some (NoDeletedAtColumnError n)"
  proof (cases "PrimaryKeyCount t = 0")
    case True
    then show ?thesis by (simp add: no_key_result message_differs)
  next
    case False
    then show ?thesis by (simp add: GenerateSelectAllSQL_def)
  qed
qed

text \<open>
  C6. With at least one primary key, \<open>GenerateSoftDeleteSQL\<close> returns the empty string
  and the no-deleted-at-column error, whose message contains the table name, exactly
  when no column is named \<open>deleted_at\<close> or \<open>DeletedAt\<close>; otherwise its error is nil. No
  other generator returns a no-deleted-at-column error, for any table, mode and name.
\<close>

theorem no_deleted_at_column_error:
  assumes "\<exists>c \<in> set (Columns t). IsPrimaryKey c"
  shows "((GenerateSoftDeleteSQL t namedParams
            = ('''', Some (NoDeletedAtColumnError (TableName t))))
          = (\<forall>c \<in> set (Columns t). Name c \<noteq> ''deleted_at'' \<and> Name c \<noteq> ''DeletedAt''))
       \<and> ((snd (GenerateSoftDeleteSQL t namedParams) = None)
          = (\<exists>c \<in> set (Columns t). Name c = ''deleted_at'' \<or> Name c = ''DeletedAt''))
       \<and> sublist (TableName t) (message (NoDeletedAtColumnError (TableName t)))
       \<and> (\<forall>t' p n.
             snd (GenerateHardDeleteSQL t' p) \<noteq> Some (NoDeletedAtColumnError n)
           \<and> snd (GenerateUpdateSQL t' p) \<noteq> Some (NoDeletedAtColumnError n)
           \<and> snd (GenerateInsertSQL t' p) \<noteq> Some (NoDeletedAtColumnError n)
           \<and> snd (GenerateSelectOneSQL t' p) \<noteq> Some (NoDeletedAtColumnError n)
           \<and> snd (GenerateSelectMultiSQL t' p) \<noteq> Some (NoDeletedAtColumnError n)
           \<and> snd (GenerateSelectAllSQL t') \<noteq> Some (NoDeletedAtColumnError n))"
proof -
  from assms have key: "PrimaryKeyCount t \<noteq> 0"
    by (simp add: has_primary_key)
  have failure: "(GenerateSoftDeleteSQL t namedParams
                    = ('''', Some (NoDeletedAtColumnError (TableName t))))
      = (\<forall>c \<in> set (Columns t). Name c \<noteq> ''deleted_at'' \<and> Name c \<noteq> ''DeletedAt'')"
    by (simp add: GenerateSoftDeleteSQL_eq [OF key] filter_empty_conv is_deleted_at_def)
  have success: "(snd (GenerateSoftDeleteSQL t namedParams) = None)
      = (\<exists>c \<in> set (Columns t). Name c = ''deleted_at'' \<or> Name c = ''DeletedAt'')"
    by (simp add: GenerateSoftDeleteSQL_eq [OF key] filter_empty_conv is_deleted_at_def)
  show ?thesis
    by (intro conjI allI failure success table_name_in_message never_no_deleted_at)
qed

theorem no_deleted_at_column_error_witness:
  "list_ex IsPrimaryKey (Columns events)
   \<and> list_all (\<lambda>c. Name c \<noteq> ''deleted_at'' \<and> Name c \<noteq> ''DeletedAt'') (Columns events)
   \<and> GenerateSoftDeleteSQL events False
       = ('''', Some (Errorf ''table events does not have a deleted at column, cannot generate sql''))
   \<and> snd (GenerateSoftDeleteSQL events False) \<noteq> None"
  using no_deleted_at_column_error [of events False]
  by (simp add: events_def NoDeletedAtColumnError_def)

section \<open>Update\<close>

text \<open>
  C7, amended. With at least one primary key, \<open>GenerateUpdateSQL\<close> in positional mode
  numbers the SET placeholders \<open>$1..$N\<close> over the \<open>N\<close> non-primary-key columns in
  table order, and gives the \<open>n\<close>-th primary key of the WHERE clause the number
  \<open>N + 2n\<close>: the sum of the two running counters, \<open>addedKey = n\<close> and
  \<open>setCol = N + n\<close>, which are both incremented with every key. In named mode the SET
  placeholders are \<open>@<colname>\<close> and the WHERE placeholders \<open>@where_<colname>\<close>.
\<close>

theorem update_sql:
  assumes "\<exists>c \<in> set (Columns t). IsPrimaryKey c"
  shows "GenerateUpdateSQL t namedParams =
    (''UPDATE \"'' @ TableName t @ ''\" SET'' @
     join '',''
       (map (\<lambda>(n, c). '' '' @ Name c @ '' = '' @
               (if namedParams then ''@'' @ Name c else ''$'' @ Sprintf_d (int n)))
          (enumerate 1 (filter (\<lambda>c. \<not> IsPrimaryKey c) (Columns t)))) @
     '' WHERE'' @
     concat
       (map (\<lambda>(n, c). '' '' @ Name c @ '' = '' @
               (if namedParams then ''@where_'' @ Name c
                else ''$'' @ Sprintf_d
                       (int (length (filter (\<lambda>c. \<not> IsPrimaryKey c) (Columns t))) + 2 * int n)) @
               (if int n + 1 < PrimaryKeyCount t then '' AND'' else []))
          (enumerate 1 (filter IsPrimaryKey (Columns t)))), None)"
proof -
  from assms have key: "PrimaryKeyCount t \<noteq> 0"
    by (simp add: has_primary_key)
  show ?thesis
    by (simp only: GenerateUpdateSQL_eq [OF key]
        add.commute [of "int (length (filter (\<lambda>c. \<not> IsPrimaryKey c) (Columns t)))"])
qed

theorem update_sql_witness:
  "list_ex IsPrimaryKey (Columns users)
   \<and> GenerateUpdateSQL users False
       = (''UPDATE \"users\" SET name = $1, deleted_at = $2 WHERE id = $4'', None)
   \<and> GenerateUpdateSQL users True
       = (''UPDATE \"users\" SET name = @name, deleted_at = @deleted_at WHERE id = @where_id'',
          None)"
  using update_sql [of users False] update_sql [of users True]
  by (simp add: users_def PrimaryKeyCount_def)

text \<open>
  C7 as stated gives the \<open>n\<close>-th primary key the number \<open>n + N\<close>. On the table \<open>t\<close>
  with the column \<open>x\<close> and the primary key \<open>a\<close>, where \<open>N = 1\<close>, that is \<open>$2\<close>; the
  key gets \<open>$3\<close>.
\<close>

theorem update_sql_counterexample:
  "GenerateUpdateSQL one_key_one_value False = (''UPDATE \"t\" SET x = $1 WHERE a = $3'', None)
   \<and> GenerateUpdateSQL one_key_one_value False
       \<noteq> (''UPDATE \"t\" SET x = $1 WHERE a = $2'', None)"
  by (simp add: GenerateUpdateSQL_def PrimaryKeyCount_def one_key_one_value_def)

text \<open>
  C10, amended. For every table with at least one column in which every column is a
  primary key, \<open>GenerateUpdateSQL\<close> succeeds with a nil error and returns
  \<open>UPDATE "<table>" SET WHERE\<close> followed by one \<open> <pk> = <placeholder>\<close> per primary
  key in table order: the SET clause is empty. (Each such entry is written by the
  second loop, the one of C2 and C7.)
\<close>

theorem update_all_primary_keys:
  assumes "Columns t \<noteq> []" and "\<forall>c \<in> set (Columns t). IsPrimaryKey c"
  shows "GenerateUpdateSQL t namedParams =
    (''UPDATE \"'' @ TableName t @ ''\" SET WHERE'' @
     concat
       (map (\<lambda>(n, c). '' '' @ Name c @ '' = '' @
               (if namedParams then ''@where_'' @ Name c else ''$'' @ Sprintf_d (2 * int n)) @
               (if int n + 1 < int (length (Columns t)) then '' AND'' else []))
          (enumerate 1 (Columns t))), None)"
proof -
  from assms(2) have all: "filter IsPrimaryKey (Columns t) = Columns t"
    and none: "filter (\<lambda>c. \<not> IsPrimaryKey c) (Columns t) = []"
    by (simp_all add: filter_empty_conv)
  from all assms(1) have key: "PrimaryKeyCount t \<noteq> 0"
    by (simp add: PrimaryKeyCount_eq)
  from all have count: "PrimaryKeyCount t = int (length (Columns t))"
    by (simp add: PrimaryKeyCount_eq)
  show ?thesis
    unfolding GenerateUpdateSQL_eq [OF key] all none count by (simp cong: if_cong)
qed

theorem update_all_primary_keys_witness:
  "Columns two_keys \<noteq> [] \<and> list_all IsPrimaryKey (Columns two_keys)
   \<and> GenerateUpdateSQL two_keys True
       = (''UPDATE \"t\" SET WHERE a = @where_a b = @where_b'', None)"
  using update_all_primary_keys [of two_keys True]
  by (simp add: two_keys_def)

text \<open>
  C10 as stated covers the table without columns, where every column is a primary key
  and \<open>GenerateUpdateSQL\<close> fails with the no-primary-key error.
\<close>

theorem update_all_primary_keys_counterexample:
  "list_all IsPrimaryKey (Columns no_columns)
   \<and> GenerateUpdateSQL no_columns False
       = ('''', Some (Errorf ''table t does not have a primary key, cannot generate sql''))
   \<and> snd (GenerateUpdateSQL no_columns False) \<noteq> None"
  by (simp add: GenerateUpdateSQL_def PrimaryKeyCount_def no_columns_def)

section \<open>Insert\<close>

text \<open>
  C8. With at least one primary key, in both modes, the column list and the VALUES
  list of \<open>GenerateInsertSQL\<close> have one entry for each column that is not
  auto-increment, in table order, and so the same number of entries. The value of a
  primary key among them is the token \<open>default\<close> in both modes; the value of any other
  is \<open>$<i+1>\<close> in positional mode, \<open>i\<close> being the index of the column among all columns
  of the table, and \<open>@<colname>\<close> in named mode.
\<close>

theorem insert_sql:
  assumes "\<exists>c \<in> set (Columns t). IsPrimaryKey c"
  shows "GenerateInsertSQL t namedParams =
    (''INSERT INTO \"'' @ TableName t @ ''\" ('' @
     join '', ''
       (map (\<lambda>(i, c). '' '' @ Name c)
          (filter (\<lambda>(i, c). \<not> IsAutoIncrement c) (enumerate 0 (Columns t)))) @
     '') values ( '' @
     join '', ''
       (map (\<lambda>(i, c). if IsPrimaryKey c then ''default''
                        else if namedParams then ''@'' @ Name c
                        else ''$'' @ Sprintf_d (int i + 1))
          (filter (\<lambda>(i, c). \<not> IsAutoIncrement c) (enumerate 0 (Columns t)))) @
     '' )'', None)
   \<and> map snd (filter (\<lambda>(i, c). \<not> IsAutoIncrement c) (enumerate 0 (Columns t)))
       = filter (\<lambda>c. \<not> IsAutoIncrement c) (Columns t)
   \<and> map fst (enumerate 0 (Columns t)) = [0..<length (Columns t)]"
proof -
  from assms have key: "PrimaryKeyCount t \<noteq> 0"
    by (simp add: has_primary_key)
  have kept: "map snd (filter (\<lambda>(i, c). \<not> IsAutoIncrement c) (enumerate n cols))
       = filter (\<lambda>c. \<not> IsAutoIncrement c) cols" for n and cols :: "ColumnMeta list"
    by (induction cols arbitrary: n) simp_all
  have names: "map (\<lambda>(i, c). '' '' @ Name c)
          (filter (\<lambda>(i, c). \<not> IsAutoIncrement c) (enumerate n cols))
       = map (\<lambda>c. '' '' @ Name c) (filter (\<lambda>c. \<not> IsAutoIncrement c) cols)"
    for n and cols :: "ColumnMeta list"
    by (induction cols arbitrary: n) simp_all
  show ?thesis
    by (simp only: GenerateInsertSQL_eq [OF key] names kept map_fst_enumerate add_0 simp_thms)
qed

theorem insert_sql_witness:
  "list_ex IsPrimaryKey (Columns orders)
   \<and> GenerateInsertSQL orders False
       = (''INSERT INTO \"orders\" ( code,  qty) values ( default, $3 )'', None)"
  using insert_sql [of orders False]
  by (simp add: orders_def)

section \<open>Select\<close>

text \<open>
  C9. With at least one primary key, \<open>GenerateSelectMultiSQL\<close> writes one comparison
  per primary key, in table order, of the form \<open><pk> = ANY(<placeholder>::<type>[])\<close>
  with the column's declared type as it is, joined by \<open>AND\<close>. The placeholder is the
  one \<open>GenerateSelectOneSQL\<close> uses for the same column: \<open>$<i+1>\<close> in positional mode
  and \<open>@where_<colname>_<i+1>\<close> in named mode, \<open>i\<close> being the index of the column among
  all columns of the table.
\<close>

theorem select_multi_sql:
  assumes "\<exists>c \<in> set (Columns t). IsPrimaryKey c"
  shows "GenerateSelectMultiSQL t namedParams =
    (''SELECT * FROM \"'' @ TableName t @ ''\" WHERE'' @
     join '' AND ''
       (map (\<lambda>(i, c). '' '' @ Name c @ '' = ANY('' @
               (if namedParams then ''@where_'' @ Name c @ ''_'' @ Sprintf_d (int i + 1)
                else ''$'' @ Sprintf_d (int i + 1)) @ ''::'' @ ColumnType c @ ''[])'')
          (filter (\<lambda>(i, c). IsPrimaryKey c) (enumerate 0 (Columns t)))), None)
   \<and> GenerateSelectOneSQL t namedParams =
    (''SELECT * FROM \"'' @ TableName t @ ''\" WHERE'' @
     join '' AND ''
       (map (\<lambda>(i, c). '' '' @ Name c @ '' = '' @
               (if namedParams then ''@where_'' @ Name c @ ''_'' @ Sprintf_d (int i + 1)
                else ''$'' @ Sprintf_d (int i + 1)))
          (filter (\<lambda>(i, c). IsPrimaryKey c) (enumerate 0 (Columns t)))), None)"
proof -
  from assms have key: "PrimaryKeyCount t \<noteq> 0"
    by (simp add: has_primary_key)
  show ?thesis
    by (simp only: GenerateSelectMultiSQL_eq [OF key] GenerateSelectOneSQL_eq [OF key] simp_thms)
qed

theorem select_multi_sql_witness:
  "list_ex IsPrimaryKey (Columns memberships)
   \<and> GenerateSelectMultiSQL memberships False
       = (''SELECT * FROM \"memberships\" WHERE org_id = ANY($1::uuid[]) AND  user_id = ANY($3::bigint[])'',
          None)
   \<and> GenerateSelectOneSQL memberships False
       = (''SELECT * FROM \"memberships\" WHERE org_id = $1 AND  user_id = $3'', None)"
  using select_multi_sql [of memberships False]
  by (simp add: memberships_def)

end
